theory Spec2Isabelle
  imports Main
begin

section \<open>JavaScript values as the bridge code sees them\<close>

text \<open>
  The Unity bridge (\<^verbatim>\<open>advanced-mcp/tools/unity.js\<close>) receives whatever axios parsed
  from the HTTP body: a JSON tree, or the raw body as a string when it was not JSON.
  \<open>jsval\<close> is that tree after parsing.
  \<^item> A string is the list of its UTF-8 bytes. The code only concatenates strings, compares
    them for equality and tests them for emptiness, and all three agree with the UTF-16
    strings of the engine under this encoding.
  \<^item> A number is carried by its decimal rendering (the result of the engine's
    \<^verbatim>\<open>Number.prototype.toString()\<close>), which determines the number up to the sign of
    zero: \<^verbatim>\<open>0\<close> and \<^verbatim>\<open>-0\<close> are both \<open>''0''\<close>.
  \<^item> An object is the association list of its own properties; a lookup takes the first
    binding of a key.
  \<^item> \<open>JUndefined\<close> is the value of a property that is missing; it never occurs inside
    a parsed tree.
\<close>

datatype jsval =
    JUndefined
  | JNull
  | JBool bool
  | JNum string
  | JStr string
  | JArr "jsval list"
  | JObj "(string \<times> jsval) list"

text \<open>
  Everything the bridge code can raise by itself is a \<^verbatim>\<open>TypeError\<close> of the engine; the
  terminal tools raise \<^verbatim>\<open>new Error(message)\<close>.
\<close>

datatype type_error =
    ReadOfNullish jsval string
  | NotAFunction string
  | NotPrimitive

datatype js_error =
    TypeError type_error
  | Error string

definition bindE :: "'e + 'a \<Rightarrow> ('a \<Rightarrow> 'e + 'b) \<Rightarrow> 'e + 'b" where
  "bindE m f = (case m of Inl e \<Rightarrow> Inl e | Inr x \<Rightarrow> f x)"

text \<open>Truthiness, as \<^verbatim>\<open>if (v)\<close>, \<^verbatim>\<open>v && w\<close> and \<^verbatim>\<open>v || w\<close> test it.\<close>

fun truthy :: "jsval \<Rightarrow> bool" where
  "truthy JUndefined = False"
| "truthy JNull = False"
| "truthy (JBool b) = b"
| "truthy (JNum r) = (r \<noteq> ''0'' \<and> r \<noteq> ''NaN'')"
| "truthy (JStr s) = (s \<noteq> [])"
| "truthy (JArr xs) = True"
| "truthy (JObj fs) = True"

text \<open>
  \<^verbatim>\<open>a === b\<close> for two values read from different places of one parsed tree: primitives
  compare by value, and two arrays or objects are never the same object.
\<close>

fun strict_eq :: "jsval \<Rightarrow> jsval \<Rightarrow> bool" where
  "strict_eq JUndefined JUndefined = True"
| "strict_eq JNull JNull = True"
| "strict_eq (JBool a) (JBool b) = (a = b)"
| "strict_eq (JNum a) (JNum b) = (a = b \<and> a \<noteq> ''NaN'')"
| "strict_eq (JStr a) (JStr b) = (a = b)"
| "strict_eq _ _ = False"

text \<open>
  \<^verbatim>\<open>v.key\<close> for the data keys this program reads (\<^verbatim>\<open>messages\<close>, \<^verbatim>\<open>type\<close>,
  \<^verbatim>\<open>content\<close>, \<^verbatim>\<open>text\<close>, \<^verbatim>\<open>message\<close>, \<^verbatim>\<open>data\<close>, \<^verbatim>\<open>image\<close>, \<^verbatim>\<open>errors\<close>,
  \<^verbatim>\<open>status\<close>, \<^verbatim>\<open>Level\<close>, \<^verbatim>\<open>level\<close>, \<^verbatim>\<open>Message\<close>, \<^verbatim>\<open>position\<close>, ...): none of
  them is a property of a built-in prototype, so a primitive or an array answers
  \<^verbatim>\<open>undefined\<close>, and \<^verbatim>\<open>null\<close> and \<^verbatim>\<open>undefined\<close> raise.
\<close>

fun get_field :: "jsval \<Rightarrow> string \<Rightarrow> js_error + jsval" where
  "get_field JUndefined k = Inl (TypeError (ReadOfNullish JUndefined k))"
| "get_field JNull k = Inl (TypeError (ReadOfNullish JNull k))"
| "get_field (JObj fs) k = Inr (case map_of fs k of None \<Rightarrow> JUndefined | Some v \<Rightarrow> v)"
| "get_field v k = Inr JUndefined"

text \<open>
  The conversion to a string that a template literal \<^verbatim>\<open>`${v}`\<close> performs. An array is
  joined with commas, \<^verbatim>\<open>null\<close> and \<^verbatim>\<open>undefined\<close> elements rendering as nothing. A
  parsed object holds no function, so an object with an own \<^verbatim>\<open>toString\<close> property
  cannot be converted and raises; any other object is \<^verbatim>\<open>[object Object]\<close>.
\<close>

fun to_string :: "jsval \<Rightarrow> js_error + string"
  and join_comma :: "jsval list \<Rightarrow> js_error + string" where
  "to_string JUndefined = Inr ''undefined''"
| "to_string JNull = Inr ''null''"
| "to_string (JBool b) = Inr (if b then ''true'' else ''false'')"
| "to_string (JNum r) = Inr r"
| "to_string (JStr s) = Inr s"
| "to_string (JArr xs) = join_comma xs"
| "to_string (JObj fs) =
     (if map_of fs ''toString'' \<noteq> None then Inl (TypeError NotPrimitive)
      else Inr ''[object Object]'')"
| "join_comma [] = Inr []"
| "join_comma (x # xs) =
     (case (if x = JNull \<or> x = JUndefined then Inr [] else to_string x) of
        Inl e \<Rightarrow> Inl e
      | Inr a \<Rightarrow>
          (if xs = [] then Inr a
           else (case join_comma xs of
                   Inl e \<Rightarrow> Inl e
                 | Inr b \<Rightarrow> Inr (a @ '','' @ b))))"

section \<open>What the code takes from its environment\<close>

text \<open>
  Four operations are not code of the repository and are parameters of the model:
  \<^item> \<open>string_gt_zero s\<close>: whether the engine's conversion of the string \<open>s\<close> to a
    number gives a number above zero (the comparison \<^verbatim>\<open>x > 0\<close> on a string);
  \<^item> \<open>type_error_message\<close>: the message text the engine gives a \<^verbatim>\<open>TypeError\<close>;
  \<^item> \<open>json_stringify\<close>: \<^verbatim>\<open>JSON.stringify\<close>;
  \<^item> \<open>axios_post url body timeout\<close>: the outcome of the one HTTP request
    (\<^verbatim>\<open>axios.post\<close> against the Unity editor).
\<close>

datatype upstream =
    Resolved jsval
  | Rejected string jsval

text \<open>
  \<open>Resolved d\<close>: the promise resolved and \<^verbatim>\<open>response.data\<close> is \<open>d\<close>.
  \<open>Rejected m b\<close>: it was rejected with an error whose \<^verbatim>\<open>message\<close> is \<open>m\<close> and whose
  \<^verbatim>\<open>response?.data\<close> is \<open>b\<close> (\<open>JUndefined\<close> when the error has no response, as
  for a refused connection or a timeout).
\<close>

record runtime =
  string_gt_zero :: "string \<Rightarrow> bool"
  type_error_message :: "type_error \<Rightarrow> string"
  json_stringify :: "jsval \<Rightarrow> string"
  axios_post :: "string \<Rightarrow> string \<Rightarrow> nat \<Rightarrow> upstream"

definition message_of :: "runtime \<Rightarrow> js_error \<Rightarrow> string" where
  "message_of rt e = (case e of Error m \<Rightarrow> m | TypeError t \<Rightarrow> type_error_message rt t)"

text \<open>
  \<^verbatim>\<open>v > 0\<close>. A number is positive unless it is zero or carries a minus sign; a string
  is converted by the engine; an array or object is first converted to a string.
\<close>

definition num_positive :: "string \<Rightarrow> bool" where
  "num_positive r =
     (r \<noteq> ''0'' \<and> r \<noteq> ''NaN'' \<and> (case r of [] \<Rightarrow> True | c # _ \<Rightarrow> c \<noteq> CHR ''-''))"

definition gt_zero :: "runtime \<Rightarrow> jsval \<Rightarrow> js_error + bool" where
  "gt_zero rt v =
     (case v of
        JUndefined \<Rightarrow> Inr False
      | JNull \<Rightarrow> Inr False
      | JBool b \<Rightarrow> Inr b
      | JNum r \<Rightarrow> Inr (num_positive r)
      | JStr s \<Rightarrow> Inr (string_gt_zero rt s)
      | _ \<Rightarrow> bindE (to_string v) (\<lambda>s. Inr (string_gt_zero rt s)))"

text \<open>
  \<^verbatim>\<open>v.length > 0\<close>: the length of an array or a string is its number of elements; an
  object answers with its own \<^verbatim>\<open>length\<close> property; a number or boolean has none.
\<close>

definition length_gt_zero :: "runtime \<Rightarrow> jsval \<Rightarrow> js_error + bool" where
  "length_gt_zero rt v =
     (case v of
        JArr xs \<Rightarrow> Inr (xs \<noteq> [])
      | JStr s \<Rightarrow> Inr (s \<noteq> [])
      | JObj fs \<Rightarrow> bindE (get_field v ''length'') (gt_zero rt)
      | JNum r \<Rightarrow> Inr False
      | JBool b \<Rightarrow> Inr False
      | _ \<Rightarrow> Inl (TypeError (ReadOfNullish v ''length'')))"

section \<open>The Response Normalizer\<close>

text \<open>
  A content block: \<^verbatim>\<open>{type: 'text', text}\<close> or \<^verbatim>\<open>{type: 'image', data, mimeType}\<close>.
  The code stores the upstream's values as they are, so \<open>text\<close> and \<open>data\<close> are
  \<open>jsval\<close>s.
\<close>

datatype block =
    TextBlock jsval
  | ImageBlock jsval string

subsection \<open>Current shape: \<^verbatim>\<open>{messages: [...]}\<close>\<close>

text \<open>The body of the loop over \<^verbatim>\<open>unityResponse.messages\<close>: the blocks one entry pushes.\<close>

definition convertMessage :: "jsval \<Rightarrow> js_error + block list" where
  "convertMessage msg =
     bindE (get_field msg ''type'') (\<lambda>ty.
       if strict_eq ty (JStr ''text'') then
         bindE (get_field msg ''content'') (\<lambda>c. Inr [TextBlock c])
       else if strict_eq ty (JStr ''image'') then
         bindE (get_field msg ''text'') (\<lambda>t.
         bindE (get_field msg ''content'') (\<lambda>c.
           Inr ((if truthy t then [TextBlock t] else []) @ [ImageBlock c ''image/png''])))
       else Inr [])"

fun convertMessages :: "jsval list \<Rightarrow> block list \<Rightarrow> js_error + block list" where
  "convertMessages [] content = Inr content"
| "convertMessages (msg # rest) content =
     (case convertMessage msg of
        Inl e \<Rightarrow> Inl e
      | Inr bs \<Rightarrow> convertMessages rest (content @ bs))"

subsection \<open>Legacy shape\<close>

text \<open>
  The callback of \<^verbatim>\<open>errors.map\<close>. \<^verbatim>\<open>typeof err === 'object'\<close> holds of objects,
  arrays and \<^verbatim>\<open>null\<close>; on any other entry the code calls \<^verbatim>\<open>err.toString()\<close>.
\<close>

definition typeof_object :: "jsval \<Rightarrow> bool" where
  "typeof_object v = (case v of JNull \<Rightarrow> True | JArr _ \<Rightarrow> True | JObj _ \<Rightarrow> True | _ \<Rightarrow> False)"

definition or_else :: "jsval \<Rightarrow> jsval \<Rightarrow> jsval" where
  "or_else a b = (if truthy a then a else b)"

definition renderError :: "jsval \<Rightarrow> js_error + string" where
  "renderError err =
     (if typeof_object err then
        bindE (get_field err ''Level'') (\<lambda>Level.
        bindE (get_field err ''level'') (\<lambda>level.
        bindE (get_field err ''Message'') (\<lambda>Message.
        bindE (get_field err ''message'') (\<lambda>message.
        bindE (to_string (or_else Level (or_else level (JStr ''Info'')))) (\<lambda>l.
        bindE (to_string (or_else Message (or_else message (JStr ''Unknown error'')))) (\<lambda>m.
          Inr (l @ '': '' @ m)))))))
      else if err = JUndefined then Inl (TypeError (ReadOfNullish JUndefined ''toString''))
      else to_string err)"

fun mapErrors :: "jsval list \<Rightarrow> js_error + string list" where
  "mapErrors [] = Inr []"
| "mapErrors (err # rest) =
     (case renderError err of
        Inl e \<Rightarrow> Inl e
      | Inr s \<Rightarrow> (case mapErrors rest of Inl e \<Rightarrow> Inl e | Inr ss \<Rightarrow> Inr (s # ss)))"

fun join_newline :: "string list \<Rightarrow> string" where
  "join_newline [] = []"
| "join_newline [s] = s"
| "join_newline (s # t # ss) = s @ ''\<newline>'' @ join_newline (t # ss)"

text \<open>
  The fourth \<^verbatim>\<open>if\<close> of \<^verbatim>\<open>convertLegacyResponse\<close>, entered with a truthy
  \<^verbatim>\<open>unityData.errors\<close>: only an array has a \<^verbatim>\<open>map\<close> method.
\<close>

definition errorsBlocks :: "runtime \<Rightarrow> jsval \<Rightarrow> js_error + block list" where
  "errorsBlocks rt errors =
     (if truthy errors then
        bindE (length_gt_zero rt errors) (\<lambda>nonempty.
          if nonempty then
            (case errors of
               JArr errs \<Rightarrow>
                 bindE (mapErrors errs) (\<lambda>lines.
                   Inr [TextBlock (JStr (''Unity Logs:\<newline>'' @ join_newline lines))])
             | _ \<Rightarrow> Inl (TypeError (NotAFunction ''unityData.errors.map'')))
          else Inr [])
      else Inr [])"

definition convertLegacyResponse :: "runtime \<Rightarrow> jsval \<Rightarrow> js_error + block list" where
  "convertLegacyResponse rt unityData =
     bindE (get_field unityData ''message'') (\<lambda>message.
     let content1 = (if truthy message then [TextBlock message] else []) in
     bindE (get_field unityData ''data'') (\<lambda>data.
     let content2 =
           (if truthy data \<and> \<not> strict_eq data message then content1 @ [TextBlock data]
            else content1) in
     bindE (get_field unityData ''image'') (\<lambda>image.
     let content3 =
           (if truthy image
            then content2 @ [TextBlock (JStr ''Unity Screenshot''), ImageBlock image ''image/png'']
            else content2) in
     bindE (get_field unityData ''errors'') (\<lambda>errors.
     bindE (errorsBlocks rt errors) (\<lambda>errorBlocks.
     let content4 = content3 @ errorBlocks in
       if content4 = [] then
         bindE (get_field unityData ''status'') (\<lambda>status.
         bindE (to_string (or_else status (JStr ''Unknown''))) (\<lambda>s.
           Inr (content4 @ [TextBlock (JStr (''Unity Status: '' @ s))])))
       else Inr content4)))))"

text \<open>
  \<^verbatim>\<open>Array.isArray\<close>, and the elements a \<^verbatim>\<open>for ... of\<close> loop visits in an array.
\<close>

definition is_array :: "jsval \<Rightarrow> bool" where
  "is_array v = (case v of JArr _ \<Rightarrow> True | _ \<Rightarrow> False)"

definition array_elements :: "jsval \<Rightarrow> jsval list" where
  "array_elements v = (case v of JArr xs \<Rightarrow> xs | _ \<Rightarrow> [])"

definition convertToMCPResponse :: "runtime \<Rightarrow> jsval \<Rightarrow> js_error + block list" where
  "convertToMCPResponse rt unityResponse =
     bindE (get_field unityResponse ''messages'') (\<lambda>messages.
       if truthy messages \<and> is_array messages then
         convertMessages (array_elements messages) []
       else convertLegacyResponse rt unityResponse)"

section \<open>The request gateway and the camera tool\<close>

definition UNITY_BASE_URL :: string where
  "UNITY_BASE_URL = ''http://localhost:7777''"

text \<open>
  The \<^verbatim>\<open>try\<close> block of \<^verbatim>\<open>handleUnityRequest\<close>. What reaches the \<^verbatim>\<open>catch\<close> block is
  the pair of \<^verbatim>\<open>error.message\<close> and \<^verbatim>\<open>error.response?.data\<close>: those of the rejected
  request, or, when the Normalizer raised on a successful reply, the message of its
  \<^verbatim>\<open>TypeError\<close>, which has no \<^verbatim>\<open>response\<close>.
\<close>

definition tryRequest ::
  "runtime \<Rightarrow> string \<Rightarrow> jsval \<Rightarrow> nat \<Rightarrow> (string \<times> jsval) + block list" where
  "tryRequest rt endpoint data timeout =
     (case axios_post rt (UNITY_BASE_URL @ endpoint) (json_stringify rt data) timeout of
        Rejected message body \<Rightarrow> Inl (message, body)
      | Resolved d \<Rightarrow>
          (case convertToMCPResponse rt d of
             Inl e \<Rightarrow> Inl (message_of rt e, JUndefined)
           | Inr content \<Rightarrow> Inr content))"

definition handleUnityRequest ::
  "runtime \<Rightarrow> string \<Rightarrow> jsval \<Rightarrow> nat \<Rightarrow> js_error + block list" where
  "handleUnityRequest rt endpoint data timeout =
     (case tryRequest rt endpoint data timeout of
        Inr content \<Rightarrow> Inr content
      | Inl (message, body) \<Rightarrow>
          let errorContent =
                [TextBlock (JStr (''Unity Connection Error: '' @ message @
                   ''\<newline>Check: Unity running, Bridge Window open, Port 7777 active.''))]
          in
            if truthy body then
              (case convertToMCPResponse rt body of
                 Inr content \<Rightarrow> Inr (errorContent @ content)
               | Inl e \<Rightarrow>
                   Inr (errorContent @
                     [TextBlock (JStr (''Unity Error Details: '' @ json_stringify rt body))]))
            else Inr errorContent)"

text \<open>The handler of the \<^verbatim>\<open>camera_screenshot\<close> tool.\<close>

definition camera_screenshot :: "runtime \<Rightarrow> jsval \<Rightarrow> js_error + block list" where
  "camera_screenshot rt params =
     bindE (get_field params ''position'') (\<lambda>position.
     bindE (get_field params ''target'') (\<lambda>target.
     bindE (get_field params ''fov'') (\<lambda>fov.
     bindE (get_field params ''width'') (\<lambda>width.
     bindE (get_field params ''height'') (\<lambda>height.
       let requestBody =
             JObj [(''position'', position),
                   (''target'', target),
                   (''fov'', or_else fov (JNum ''60'')),
                   (''width'', or_else width (JNum ''1920'')),
                   (''height'', or_else height (JNum ''1080''))]
       in handleUnityRequest rt ''/api/camera_screenshot'' requestBody 20000)))))"

text \<open>
  A mocked environment, for running the code on examples: every request gets the same
  outcome \<open>reply\<close>. None of the examples below reaches a string-to-number conversion,
  and the message and JSON texts are placeholders.
\<close>

definition mock_runtime :: "upstream \<Rightarrow> runtime" where
  "mock_runtime reply =
     \<lparr> string_gt_zero = (\<lambda>s. False),
       type_error_message = (\<lambda>t. ''TypeError''),
       json_stringify = (\<lambda>v. ''<json>''),
       axios_post = (\<lambda>url body timeout. reply) \<rparr>"

section \<open>The interactive tool \<^verbatim>\<open>wait_for_user\<close>\<close>

text \<open>
  The terminal tools reach the operating system through \<^verbatim>\<open>execAsync\<close> and
  \<^verbatim>\<open>spawnBackground\<close> of \<^verbatim>\<open>utils/processHelpers.js\<close>, which is not among the sources:
  both are parameters, together with \<^verbatim>\<open>process.platform\<close>. A call either fails with
  an error message (\<open>Inl\<close>) or succeeds, \<^verbatim>\<open>execAsync\<close> with the standard output of the
  command.
\<close>

record host =
  platform :: string
  execAsync :: "string \<Rightarrow> string + string"
  spawnBackground :: "string \<Rightarrow> string + unit"

text \<open>
  The arguments after schema validation: \<open>request\<close> is required, the others are
  \<open>None\<close> when the caller left them out.
\<close>

record wait_args =
  request :: string
  details :: "string option"
  expect_answer :: "bool option"
  answer_placeholder :: "string option"

text \<open>The Russian texts of the source, as UTF-8 bytes.\<close>

definition title_question :: string where
  "title_question =
     [CHR 0xD0, CHR 0x92, CHR 0xD0, CHR 0xBE, CHR 0xD0, CHR 0xBF, CHR 0xD1, CHR 0x80,
      CHR 0xD0, CHR 0xBE, CHR 0xD1, CHR 0x81, CHR 0x20, CHR 0xD0, CHR 0xBE, CHR 0xD1,
      CHR 0x82, CHR 0x20, CHR 0x41, CHR 0x49]"

definition title_action :: string where
  "title_action =
     [CHR 0xD0, CHR 0x97, CHR 0xD0, CHR 0xB0, CHR 0xD0, CHR 0xBF, CHR 0xD1, CHR 0x80,
      CHR 0xD0, CHR 0xBE, CHR 0xD1, CHR 0x81, CHR 0x20, CHR 0xD0, CHR 0xB4, CHR 0xD0,
      CHR 0xB5, CHR 0xD0, CHR 0xB9, CHR 0xD1, CHR 0x81, CHR 0xD1, CHR 0x82, CHR 0xD0,
      CHR 0xB2, CHR 0xD0, CHR 0xB8, CHR 0xD1, CHR 0x8F]"

definition details_label :: string where
  "details_label =
     [CHR 0xD0, CHR 0x94, CHR 0xD0, CHR 0xB5, CHR 0xD1, CHR 0x82, CHR 0xD0, CHR 0xB0,
      CHR 0xD0, CHR 0xBB, CHR 0xD0, CHR 0xB8, CHR 0x3A, CHR 0x20]"

definition default_placeholder :: string where
  "default_placeholder =
     [CHR 0xD0, CHR 0x92, CHR 0xD0, CHR 0xB2, CHR 0xD0, CHR 0xB5, CHR 0xD0, CHR 0xB4,
      CHR 0xD0, CHR 0xB8, CHR 0xD1, CHR 0x82, CHR 0xD0, CHR 0xB5, CHR 0x20, CHR 0xD0,
      CHR 0xB2, CHR 0xD0, CHR 0xB0, CHR 0xD1, CHR 0x88, CHR 0x20, CHR 0xD0, CHR 0xBE,
      CHR 0xD1, CHR 0x82, CHR 0xD0, CHR 0xB2, CHR 0xD0, CHR 0xB5, CHR 0xD1, CHR 0x82,
      CHR 0x2E, CHR 0x2E, CHR 0x2E]"

definition button_send :: string where
  "button_send =
     [CHR 0xD0, CHR 0x9E, CHR 0xD1, CHR 0x82, CHR 0xD0, CHR 0xBF, CHR 0xD1, CHR 0x80,
      CHR 0xD0, CHR 0xB0, CHR 0xD0, CHR 0xB2, CHR 0xD0, CHR 0xB8, CHR 0xD1, CHR 0x82,
      CHR 0xD1, CHR 0x8C]"

definition button_cancel :: string where
  "button_cancel =
     [CHR 0xD0, CHR 0x9E, CHR 0xD1, CHR 0x82, CHR 0xD0, CHR 0xBC, CHR 0xD0, CHR 0xB5,
      CHR 0xD0, CHR 0xBD, CHR 0xD0, CHR 0xB0]"

definition button_done :: string where
  "button_done =
     [CHR 0xD0, CHR 0x92, CHR 0xD1, CHR 0x8B, CHR 0xD0, CHR 0xBF, CHR 0xD0, CHR 0xBE,
      CHR 0xD0, CHR 0xBB, CHR 0xD0, CHR 0xBD, CHR 0xD0, CHR 0xB5, CHR 0xD0, CHR 0xBD,
      CHR 0xD0, CHR 0xBE]"

text \<open>The double quote, the single quote, and a backslash before a double quote.\<close>

definition dq :: string where "dq = [CHR 0x22]"
definition sq :: string where "sq = [CHR 0x27]"
definition bq :: string where "bq = [CHR 0x5C, CHR 0x22]"

text \<open>\<^verbatim>\<open>s.replace(/"/g, '\\"')\<close>: a backslash before every double quote.\<close>

definition escape_quotes :: "string \<Rightarrow> string" where
  "escape_quotes s = concat (map (\<lambda>c. if c = CHR 0x22 then bq else [c]) s)"

text \<open>\<^verbatim>\<open>s.includes(pat)\<close>.\<close>

fun includes_str :: "string \<Rightarrow> string \<Rightarrow> bool" where
  "includes_str [] pat = (pat = [])"
| "includes_str (c # cs) pat = (take (length pat) (c # cs) = pat \<or> includes_str cs pat)"

text \<open>
  The line terminators, which \<^verbatim>\<open>.\<close> of a regular expression does not match, and the
  white space that \<^verbatim>\<open>trim()\<close> removes besides them, each as its UTF-8 bytes.
\<close>

definition line_terminators :: "string list" where
  "line_terminators =
     [[CHR 0x0A], [CHR 0x0D], [CHR 0xE2, CHR 0x80, CHR 0xA8], [CHR 0xE2, CHR 0x80, CHR 0xA9]]"

definition white_space :: "string list" where
  "white_space =
     [[CHR 0x09], [CHR 0x0B], [CHR 0x0C], [CHR 0x20], [CHR 0xC2, CHR 0xA0],
      [CHR 0xE1, CHR 0x9A, CHR 0x80],
      [CHR 0xE2, CHR 0x80, CHR 0x80], [CHR 0xE2, CHR 0x80, CHR 0x81],
      [CHR 0xE2, CHR 0x80, CHR 0x82], [CHR 0xE2, CHR 0x80, CHR 0x83],
      [CHR 0xE2, CHR 0x80, CHR 0x84], [CHR 0xE2, CHR 0x80, CHR 0x85],
      [CHR 0xE2, CHR 0x80, CHR 0x86], [CHR 0xE2, CHR 0x80, CHR 0x87],
      [CHR 0xE2, CHR 0x80, CHR 0x88], [CHR 0xE2, CHR 0x80, CHR 0x89],
      [CHR 0xE2, CHR 0x80, CHR 0x8A], [CHR 0xE2, CHR 0x80, CHR 0xAF],
      [CHR 0xE2, CHR 0x81, CHR 0x9F], [CHR 0xE3, CHR 0x80, CHR 0x80],
      [CHR 0xEF, CHR 0xBB, CHR 0xBF]]"

definition trimmed :: "string list" where
  "trimmed = white_space @ line_terminators"

text \<open>The longest run of characters from the start that \<^verbatim>\<open>.+\<close> can match.\<close>

fun dot_run :: "string \<Rightarrow> string" where
  "dot_run [] = []"
| "dot_run (c # cs) =
     (if list_ex (\<lambda>q. take (length q) (c # cs) = q) line_terminators then []
      else c # dot_run cs)"

text \<open>
  \<^verbatim>\<open>stdout.match(/text returned:(.+)/)\<close>: the capture group of the leftmost match, or
  \<open>None\<close> when the pattern matches nowhere.
\<close>

fun match_text_returned :: "string \<Rightarrow> string option" where
  "match_text_returned [] = None"
| "match_text_returned (c # cs) =
     (if take 14 (c # cs) = ''text returned:'' \<and> dot_run (drop 14 (c # cs)) \<noteq> []
      then Some (dot_run (drop 14 (c # cs)))
      else match_text_returned cs)"

text \<open>\<^verbatim>\<open>s.trim()\<close>: white space and line terminators go from both ends.\<close>

fun strip_start :: "string \<Rightarrow> string" where
  "strip_start (a # b # c # r) =
     (if [a] \<in> set trimmed then strip_start (b # c # r)
      else if [a, b] \<in> set trimmed then strip_start (c # r)
      else if [a, b, c] \<in> set trimmed then strip_start r
      else a # b # c # r)"
| "strip_start [a, b] =
     (if [a] \<in> set trimmed then strip_start [b]
      else if [a, b] \<in> set trimmed then []
      else [a, b])"
| "strip_start [a] = (if [a] \<in> set trimmed then [] else [a])"
| "strip_start [] = []"

fun strip_end_rev :: "string \<Rightarrow> string" where
  "strip_end_rev (a # b # c # r) =
     (if [a] \<in> set trimmed then strip_end_rev (b # c # r)
      else if [b, a] \<in> set trimmed then strip_end_rev (c # r)
      else if [c, b, a] \<in> set trimmed then strip_end_rev r
      else a # b # c # r)"
| "strip_end_rev [a, b] =
     (if [a] \<in> set trimmed then strip_end_rev [b]
      else if [b, a] \<in> set trimmed then []
      else [a, b])"
| "strip_end_rev [a] = (if [a] \<in> set trimmed then [] else [a])"
| "strip_end_rev [] = []"

definition js_trim :: "string \<Rightarrow> string" where
  "js_trim s = rev (strip_end_rev (rev (strip_start s)))"

text \<open>
  The outer \<^verbatim>\<open>catch\<close> of the handler: whatever was raised inside is raised again as
  \<^verbatim>\<open>Interaction Error: <message>\<close>.
\<close>

definition interaction :: "string + string \<Rightarrow> js_error + string" where
  "interaction r =
     (case r of
        Inl message \<Rightarrow> Inl (Error (''Interaction Error: '' @ message))
      | Inr answer \<Rightarrow> Inr answer)"

definition wait_for_user :: "host \<Rightarrow> wait_args \<Rightarrow> js_error + string" where
  "wait_for_user h args =
     (let details = (case details args of None \<Rightarrow> [] | Some d \<Rightarrow> d);
          expect_answer = (case expect_answer args of None \<Rightarrow> False | Some b \<Rightarrow> b);
          answer_placeholder =
            (case answer_placeholder args of None \<Rightarrow> default_placeholder | Some p \<Rightarrow> p);
          os = platform h;
          title = (if expect_answer then title_question else title_action);
          fullRequest =
            (if details \<noteq> []
             then request args @ ''\<newline>\<newline>'' @ details_label @ details
             else request args)
      in interaction
        (if os = ''darwin'' then
           (if expect_answer then
              (let script =
                     ''display dialog '' @ dq @ escape_quotes fullRequest @ dq @
                     '' with title '' @ dq @ title @ dq @
                     '' default answer '' @ dq @ answer_placeholder @ dq @
                     '' buttons {'' @ dq @ button_send @ dq @ '', '' @ dq @ button_cancel @ dq @
                     ''} default button '' @ dq @ button_send @ dq
               in case execAsync h (''osascript -e '' @ sq @ script @ sq) of
                    Inl e \<Rightarrow> Inl ''User cancelled input.''
                  | Inr stdout \<Rightarrow>
                      (case match_text_returned stdout of
                         Some answer \<Rightarrow> Inr (''User Answer: '' @ dq @ js_trim answer @ dq)
                       | None \<Rightarrow> Inl ''User cancelled input.''))
            else
              (let script =
                     ''display dialog '' @ dq @ escape_quotes fullRequest @ dq @
                     '' with title '' @ dq @ title @ dq @
                     '' buttons {'' @ dq @ button_done @ dq @ '', '' @ dq @ button_cancel @ dq @
                     ''} default button '' @ dq @ button_done @ dq
               in case execAsync h (''osascript -e '' @ sq @ script @ sq) of
                    Inl e \<Rightarrow> Inl ''User cancelled operation.''
                  | Inr stdout \<Rightarrow>
                      (if includes_str stdout button_done then Inr ''User confirmed execution.''
                       else Inl ''User cancelled operation.'')))
         else
           (if expect_answer then
              (let command =
                     (if os = ''win32'' then
                        ''start cmd /k '' @ dq @ ''echo '' @ title @ '' && echo. && echo '' @
                        fullRequest @
                        '' && echo. && echo Please type your answer in Cursor chat && echo. && pause'' @
                        dq
                      else
                        ''x-terminal-emulator -e '' @ dq @ ''bash -c '' @ sq @
                        ''echo '' @ bq @ title @ bq @ ''; echo; echo '' @ bq @ fullRequest @ bq @
                        ''; echo; echo '' @ bq @ ''Please type your answer in Cursor chat'' @ bq @
                        ''; read -p '' @ bq @ ''Press Enter...'' @ bq @ sq @ dq)
               in case spawnBackground h command of
                    Inl e \<Rightarrow> Inl e
                  | Inr u \<Rightarrow> Inr ''Waiting for user input in chat...'')
            else
              (let command =
                     (if os = ''win32'' then
                        ''start cmd /k '' @ dq @ ''echo '' @ title @ '' && echo. && echo '' @
                        fullRequest @
                        '' && echo. && echo Close this window when done && echo. && pause'' @ dq
                      else
                        ''x-terminal-emulator -e '' @ dq @ ''bash -c '' @ sq @
                        ''echo '' @ bq @ title @ bq @ ''; echo; echo '' @ bq @ fullRequest @ bq @
                        ''; echo; read -p '' @ bq @ ''Press Enter when done...'' @ bq @ sq @ dq)
               in case spawnBackground h command of
                    Inl e \<Rightarrow> Inl e
                  | Inr u \<Rightarrow> Inr ''Waiting for user confirmation...''))))"

text \<open>
  The one command a call issues, written out from the arguments: the mode, the title
  and the full request as the handler computes them, the \<^verbatim>\<open>osascript\<close> dialog of the
  macOS branch, and the terminal window of the Windows and Linux branch.
\<close>

definition expects_answer :: "wait_args \<Rightarrow> bool" where
  "expects_answer args = (case expect_answer args of None \<Rightarrow> False | Some b \<Rightarrow> b)"

definition dialog_title :: "wait_args \<Rightarrow> string" where
  "dialog_title args = (if expects_answer args then title_question else title_action)"

definition full_request :: "wait_args \<Rightarrow> string" where
  "full_request args =
     (case details args of
        None \<Rightarrow> request args
      | Some d \<Rightarrow>
          (if d \<noteq> [] then request args @ ''\<newline>\<newline>'' @ details_label @ d
           else request args))"

definition dialog_command :: "wait_args \<Rightarrow> string" where
  "dialog_command args =
     ''osascript -e '' @ sq @
     ''display dialog '' @ dq @ escape_quotes (full_request args) @ dq @
     '' with title '' @ dq @ dialog_title args @ dq @
     (if expects_answer args then
        '' default answer '' @ dq @
        (case answer_placeholder args of None \<Rightarrow> default_placeholder | Some p \<Rightarrow> p) @ dq @
        '' buttons {'' @ dq @ button_send @ dq @ '', '' @ dq @ button_cancel @ dq @
        ''} default button '' @ dq @ button_send @ dq
      else
        '' buttons {'' @ dq @ button_done @ dq @ '', '' @ dq @ button_cancel @ dq @
        ''} default button '' @ dq @ button_done @ dq) @
     sq"

definition terminal_command :: "string \<Rightarrow> wait_args \<Rightarrow> string" where
  "terminal_command os args =
     (if os = ''win32'' then
        ''start cmd /k '' @ dq @ ''echo '' @ dialog_title args @ '' && echo. && echo '' @
        full_request args @ '' && echo. && echo '' @
        (if expects_answer args then ''Please type your answer in Cursor chat''
         else ''Close this window when done'') @
        '' && echo. && pause'' @ dq
      else
        ''x-terminal-emulator -e '' @ dq @ ''bash -c '' @ sq @
        ''echo '' @ bq @ dialog_title args @ bq @ ''; echo; echo '' @ bq @ full_request args @ bq @
        (if expects_answer args then
           ''; echo; echo '' @ bq @ ''Please type your answer in Cursor chat'' @ bq @
           ''; read -p '' @ bq @ ''Press Enter...'' @ bq
         else ''; echo; read -p '' @ bq @ ''Press Enter when done...'' @ bq) @
        sq @ dq)"

text \<open>A mocked operating system: every command gets the same outcome.\<close>

definition mock_host :: "string \<Rightarrow> string + string \<Rightarrow> string + unit \<Rightarrow> host" where
  "mock_host os out spawned =
     \<lparr> platform = os, execAsync = (\<lambda>command. out), spawnBackground = (\<lambda>command. spawned) \<rparr>"

section \<open>The specification's words, as definitions\<close>

text \<open>
  \<open>field_of v k\<close> is the value a payload or entry \<open>v\<close> holds under the key \<open>k\<close>,
  \<open>JUndefined\<close> when it has none. \<open>string_or_absent\<close> holds of an optional string
  field, as the data model of the specification types \<^verbatim>\<open>text?\<close>, \<^verbatim>\<open>status?\<close>,
  \<^verbatim>\<open>level\<close> and \<^verbatim>\<open>message\<close>.
\<close>

definition field_of :: "jsval \<Rightarrow> string \<Rightarrow> jsval" where
  "field_of v k =
     (case v of
        JObj fs \<Rightarrow> (case map_of fs k of None \<Rightarrow> JUndefined | Some x \<Rightarrow> x)
      | _ \<Rightarrow> JUndefined)"

definition string_or_absent :: "jsval \<Rightarrow> bool" where
  "string_or_absent v = (case v of JUndefined \<Rightarrow> True | JStr s \<Rightarrow> True | _ \<Rightarrow> False)"

text \<open>
  Current shape, one entry (section 4.4, step 1): a \<^verbatim>\<open>text\<close> entry gives one text
  block with its \<^verbatim>\<open>content\<close>; an \<^verbatim>\<open>image\<close> entry gives a leading text block from its
  \<^verbatim>\<open>text\<close> field, only if present and non-empty, and then a PNG image block with its
  \<^verbatim>\<open>content\<close>; any other entry is skipped.
\<close>

definition present_nonempty :: "jsval \<Rightarrow> bool" where
  "present_nonempty t = (t \<noteq> JUndefined \<and> t \<noteq> JStr [])"

definition spec_entry_blocks :: "jsval \<Rightarrow> block list" where
  "spec_entry_blocks e =
     (if field_of e ''type'' = JStr ''text'' then [TextBlock (field_of e ''content'')]
      else if field_of e ''type'' = JStr ''image'' then
        (if present_nonempty (field_of e ''text'') then [TextBlock (field_of e ''text'')] else [])
        @ [ImageBlock (field_of e ''content'') ''image/png'']
      else [])"

definition entry_typed :: "jsval \<Rightarrow> bool" where
  "entry_typed e = (e \<noteq> JNull \<and> e \<noteq> JUndefined \<and> string_or_absent (field_of e ''text''))"




text \<open>
  The blocks of \<^verbatim>\<open>message\<close> and \<^verbatim>\<open>data\<close> (steps 2a and 2b) and of \<^verbatim>\<open>image\<close>
  (step 2c) of a legacy payload, in the order the code pushes them.
\<close>

definition messageDataBlocks :: "jsval \<Rightarrow> block list" where
  "messageDataBlocks p =
     (if truthy (field_of p ''message'') then [TextBlock (field_of p ''message'')] else [])
     @ (if truthy (field_of p ''data'')
          \<and> \<not> strict_eq (field_of p ''data'') (field_of p ''message'')
        then [TextBlock (field_of p ''data'')] else [])"

definition imageBlocks :: "jsval \<Rightarrow> block list" where
  "imageBlocks p =
     (if truthy (field_of p ''image'')
      then [TextBlock (JStr ''Unity Screenshot''), ImageBlock (field_of p ''image'') ''image/png'']
      else [])"



text \<open>Removing a key from the own properties of an object.\<close>

definition without :: "string \<Rightarrow> (string \<times> jsval) list \<Rightarrow> (string \<times> jsval) list" where
  "without k fs = filter (\<lambda>kv. fst kv \<noteq> k) fs"

section \<open>Auxiliary facts\<close>

lemma bindE_Inl [simp]: "bindE (Inl e) f = Inl e"
  by (simp add: bindE_def)

lemma bindE_Inr [simp]: "bindE (Inr x) f = f x"
  by (simp add: bindE_def)

lemma get_field_present: "p \<noteq> JNull \<Longrightarrow> p \<noteq> JUndefined \<Longrightarrow> get_field p k = Inr (field_of p k)"
  by (cases p) (simp_all add: field_of_def)

lemma convertLegacyResponse_blocks:
  assumes "p \<noteq> JNull" "p \<noteq> JUndefined"
  shows "convertLegacyResponse rt p =
     bindE (errorsBlocks rt (field_of p ''errors'')) (\<lambda>eb.
       if messageDataBlocks p @ imageBlocks p @ eb = [] then
         bindE (to_string (or_else (field_of p ''status'') (JStr ''Unknown''))) (\<lambda>s.
           Inr [TextBlock (JStr (''Unity Status: '' @ s))])
       else Inr (messageDataBlocks p @ imageBlocks p @ eb))"
proof (cases "errorsBlocks rt (field_of p ''errors'')")
  case (Inl e)
  with assms show ?thesis
    by (simp add: convertLegacyResponse_def get_field_present Let_def)
next
  case (Inr eb)
  with assms show ?thesis
    by (simp add: convertLegacyResponse_def get_field_present Let_def
        messageDataBlocks_def imageBlocks_def)
qed

lemma convertToMCPResponse_current:
  assumes "get_field p ''messages'' = Inr (JArr ms)"
  shows "convertToMCPResponse rt p = convertMessages ms []"
  using assms by (simp add: convertToMCPResponse_def is_array_def array_elements_def)







lemma errorsBlocks_absent [simp]: "errorsBlocks rt JUndefined = Inr []"
  by (simp add: errorsBlocks_def)



lemma convertToMCPResponse_fields:
  assumes "p \<noteq> JNull" "p \<noteq> JUndefined" "\<not> is_array (field_of p ''messages'')"
  shows "convertToMCPResponse rt p =
     bindE (errorsBlocks rt (field_of p ''errors'')) (\<lambda>eb.
       if messageDataBlocks p @ imageBlocks p @ eb = [] then
         bindE (to_string (or_else (field_of p ''status'') (JStr ''Unknown''))) (\<lambda>s.
           Inr [TextBlock (JStr (''Unity Status: '' @ s))])
       else Inr (messageDataBlocks p @ imageBlocks p @ eb))"
  using assms
  by (simp add: convertToMCPResponse_def get_field_present convertLegacyResponse_blocks)


lemma strict_eq_JStr: "strict_eq v (JStr s) \<longleftrightarrow> v = JStr s"
  by (cases v) auto

lemma truthy_string_or_absent:
  "string_or_absent t \<Longrightarrow> truthy t \<longleftrightarrow> present_nonempty t"
  by (cases t) (simp_all add: string_or_absent_def present_nonempty_def)

lemma convertMessage_spec:
  assumes "entry_typed e"
  shows "convertMessage e = Inr (spec_entry_blocks e)"
proof -
  from assms have nn: "e \<noteq> JNull" "e \<noteq> JUndefined"
    and t: "string_or_absent (field_of e ''text'')"
    by (simp_all add: entry_typed_def)
  show ?thesis
    by (simp add: convertMessage_def spec_entry_blocks_def get_field_present [OF nn]
        strict_eq_JStr truthy_string_or_absent [OF t])
qed

lemma convertMessages_spec:
  assumes "\<forall>e \<in> set ms. entry_typed e"
  shows "convertMessages ms content = Inr (content @ concat (map spec_entry_blocks ms))"
  using assms
proof (induction ms arbitrary: content)
  case Nil
  then show ?case by simp
next
  case (Cons e ms)
  then show ?case by (simp add: convertMessage_spec)
qed




lemma legacy_image_blocks:
  assumes "p \<noteq> JNull" and "p \<noteq> JUndefined" and "\<not> is_array (field_of p ''messages'')"
    and "truthy (field_of p ''image'')"
    and "errorsBlocks rt (field_of p ''errors'') = Inr eb"
  shows "convertToMCPResponse rt p =
     Inr (messageDataBlocks p
          @ [TextBlock (JStr ''Unity Screenshot''), ImageBlock (field_of p ''image'') ''image/png'']
          @ eb)"
  using assms by (simp add: convertToMCPResponse_fields imageBlocks_def)

lemma camera_screenshot_request:
  "camera_screenshot rt
       (JObj [(''position'', JArr [JNum ''0'', JNum ''1'', JNum ''2'']),
              (''target'', JArr [JNum ''0'', JNum ''0'', JNum ''0''])])
   = handleUnityRequest rt ''/api/camera_screenshot''
       (JObj [(''position'', JArr [JNum ''0'', JNum ''1'', JNum ''2'']),
              (''target'', JArr [JNum ''0'', JNum ''0'', JNum ''0'']),
              (''fov'', JNum ''60''), (''width'', JNum ''1920''), (''height'', JNum ''1080'')])
       20000"
  by (simp add: camera_screenshot_def or_else_def)

lemma field_of_cons:
  "field_of (JObj ((k, v) # fs)) k' = (if k' = k then v else field_of (JObj fs) k')"
  by (simp add: field_of_def)

lemma map_of_without: "map_of (without k fs) k' = (if k' = k then None else map_of fs k')"
  by (induction fs) (auto simp: without_def)

lemma field_of_without:
  "field_of (JObj (without k fs)) k' = (if k' = k then JUndefined else field_of (JObj fs) k')"
  by (simp add: field_of_def map_of_without)

lemma convertToMCPResponse_object:
  "convertToMCPResponse rt (JObj fs) =
     (if is_array (field_of (JObj fs) ''messages'')
      then convertMessages (array_elements (field_of (JObj fs) ''messages'')) []
      else convertLegacyResponse rt (JObj fs))"
proof -
  have g: "get_field (JObj fs) ''messages'' = Inr (field_of (JObj fs) ''messages'')"
    by (simp add: field_of_def)
  show ?thesis
    unfolding convertToMCPResponse_def g
    by (cases "field_of (JObj fs) ''messages''") (simp_all add: is_array_def)
qed

lemma truthy_not_empty_string: "truthy v \<Longrightarrow> \<not> strict_eq v (JStr [])"
  by (cases v) simp_all

lemma strict_eq_undefined: "truthy v \<Longrightarrow> \<not> strict_eq v JUndefined"
  by (cases v) simp_all

section \<open>Claims\<close>

subsection \<open>C1: the content is never empty\<close>




subsection \<open>C2: a failed request becomes content\<close>



subsection \<open>C3: the current shape has priority\<close>

text \<open>
  Claim C3 as stated: every payload that has a \<^verbatim>\<open>messages\<close> field is normalized by
  the current-shape rules, and its legacy fields contribute no block. It fails when
  \<^verbatim>\<open>messages\<close> is not a sequence: the code tests \<^verbatim>\<open>Array.isArray\<close> and falls back to
  the legacy rules, so \<^verbatim>\<open>{messages: "hello", message: "X"}\<close> yields the block of its
  legacy field \<^verbatim>\<open>message\<close>.
\<close>

theorem messages_not_sequence_counterexample:
  "convertToMCPResponse (mock_runtime (Resolved JNull))
       (JObj [(''messages'', JStr ''hello''), (''message'', JStr ''X'')])
     = Inr [TextBlock (JStr ''X'')]"
  by (simp add: convertToMCPResponse_def convertLegacyResponse_def is_array_def)

text \<open>
  Claim C3, amended: every payload whose \<^verbatim>\<open>messages\<close> field is a sequence is
  normalized by the loop over that sequence alone, so two payloads with the same
  \<^verbatim>\<open>messages\<close> sequence have the same content, whatever legacy fields either carries.
\<close>

theorem messages_sequence_priority:
  assumes "get_field p ''messages'' = Inr (JArr ms)"
    and "get_field q ''messages'' = Inr (JArr ms)"
  shows "convertToMCPResponse rt p = convertMessages ms []
     \<and> convertToMCPResponse rt p = convertToMCPResponse rt' q"
  using assms by (simp add: convertToMCPResponse_current)

text \<open>
  The theorem at a payload carrying one text message and every legacy field, against
  the payload with the same messages only.
\<close>

theorem messages_sequence_priority_witness:
  "convertToMCPResponse (mock_runtime (Resolved JNull))
       (JObj [(''messages'', JArr [JObj [(''type'', JStr ''text''), (''content'', JStr ''hi'')]]),
              (''message'', JStr ''X''), (''data'', JStr ''Y''), (''image'', JStr ''AAAA''),
              (''errors'', JArr [JStr ''e'']), (''status'', JStr ''idle'')])
     = Inr [TextBlock (JStr ''hi'')]
   \<and> convertToMCPResponse (mock_runtime (Resolved JNull))
       (JObj [(''messages'', JArr [JObj [(''type'', JStr ''text''), (''content'', JStr ''hi'')]])])
     = Inr [TextBlock (JStr ''hi'')]"
proof -
  let ?ms = "[JObj [(''type'', JStr ''text''), (''content'', JStr ''hi'')]]"
  let ?p = "JObj [(''messages'', JArr ?ms),
              (''message'', JStr ''X''), (''data'', JStr ''Y''), (''image'', JStr ''AAAA''),
              (''errors'', JArr [JStr ''e'']), (''status'', JStr ''idle'')]"
  let ?q = "JObj [(''messages'', JArr ?ms)]"
  have p: "get_field ?p ''messages'' = Inr (JArr ?ms)" by simp
  have q: "get_field ?q ''messages'' = Inr (JArr ?ms)" by simp
  have run: "convertMessages ?ms [] = Inr [TextBlock (JStr ''hi'')]"
    by (simp add: convertMessage_def)
  note both = messages_sequence_priority [OF p q,
      where rt = "mock_runtime (Resolved JNull)" and rt' = "mock_runtime (Resolved JNull)"]
  from both have e1: "convertToMCPResponse (mock_runtime (Resolved JNull)) ?p = convertMessages ?ms []"
    by (rule conjunct1)
  from both have e2: "convertToMCPResponse (mock_runtime (Resolved JNull)) ?p
      = convertToMCPResponse (mock_runtime (Resolved JNull)) ?q"
    by (rule conjunct2)
  show ?thesis
    using e1 e2 run by metis
qed

subsection \<open>C4: the entries of the current shape\<close>

text \<open>
  Claim C4 as stated: every payload whose \<^verbatim>\<open>messages\<close> field is a sequence is
  normalized entry by entry without error, an image entry getting its caption exactly
  when its \<^verbatim>\<open>text\<close> is present and non-empty. It fails on entries outside the data
  model: a \<^verbatim>\<open>null\<close> entry is neither a text nor an image entry, and reading its
  \<^verbatim>\<open>type\<close> raises; and an image entry whose \<^verbatim>\<open>text\<close> is the number zero, present
  and no empty string, gets no caption.
\<close>

theorem null_entry_counterexample:
  "convertToMCPResponse (mock_runtime (Resolved JNull))
       (JObj [(''messages'', JArr [JObj [(''type'', JStr ''video'')], JNull])])
     = Inl (TypeError (ReadOfNullish JNull ''type''))
   \<and> convertToMCPResponse (mock_runtime (Resolved JNull))
       (JObj [(''messages'', JArr [JObj [(''type'', JStr ''image''), (''content'', JStr ''AAAA''),
                                         (''text'', JNum ''0'')]])])
     = Inr [ImageBlock (JStr ''AAAA'') ''image/png'']"
  by (simp add: convertToMCPResponse_def is_array_def array_elements_def convertMessage_def)

text \<open>
  Claim C4, amended: for a payload whose \<^verbatim>\<open>messages\<close> field is a sequence of entries
  none of which is \<^verbatim>\<open>null\<close> and whose \<^verbatim>\<open>text\<close> fields are strings when present, the
  Normalizer returns the blocks of the entries in input order. A \<^verbatim>\<open>text\<close> entry gives
  exactly one text block with its \<^verbatim>\<open>content\<close>; an \<^verbatim>\<open>image\<close> entry gives an image
  block with its \<^verbatim>\<open>content\<close> and the media type \<^verbatim>\<open>image/png\<close>, preceded by a text
  block with its \<^verbatim>\<open>text\<close> exactly when that field is present and non-empty; an entry of
  any other type gives no block and no error.
\<close>

theorem current_shape_entries_in_order:
  assumes "get_field p ''messages'' = Inr (JArr ms)"
    and "\<forall>e \<in> set ms. entry_typed e"
  shows "convertToMCPResponse rt p = Inr (concat (map spec_entry_blocks ms))"
  using assms by (simp add: convertToMCPResponse_current convertMessages_spec)

text \<open>
  The theorem at the payloads of the claim, an image entry with and without a caption,
  and at a sequence whose second and third entries are of no recognized type.
\<close>

theorem current_shape_entries_in_order_witness:
  "convertToMCPResponse (mock_runtime (Resolved JNull))
     (JObj [(''messages'', JArr [JObj [(''type'', JStr ''image''), (''content'', JStr ''AAAA''),
                                       (''text'', JStr ''caption'')]])])
     = Inr [TextBlock (JStr ''caption''), ImageBlock (JStr ''AAAA'') ''image/png'']
   \<and> convertToMCPResponse (mock_runtime (Resolved JNull))
     (JObj [(''messages'', JArr [JObj [(''type'', JStr ''image''), (''content'', JStr ''AAAA'')]])])
     = Inr [ImageBlock (JStr ''AAAA'') ''image/png'']
   \<and> convertToMCPResponse (mock_runtime (Resolved JNull))
     (JObj [(''messages'', JArr [JObj [(''type'', JStr ''text''), (''content'', JStr ''one'')],
                                 JObj [(''type'', JStr ''video''), (''content'', JStr ''skipped'')],
                                 JNum ''7'',
                                 JObj [(''type'', JStr ''text''), (''content'', JStr ''two'')]])])
     = Inr [TextBlock (JStr ''one''), TextBlock (JStr ''two'')]"
proof -
  let ?rt = "mock_runtime (Resolved JNull)"
  let ?a = "[JObj [(''type'', JStr ''image''), (''content'', JStr ''AAAA''), (''text'', JStr ''caption'')]]"
  let ?b = "[JObj [(''type'', JStr ''image''), (''content'', JStr ''AAAA'')]]"
  let ?c = "[JObj [(''type'', JStr ''text''), (''content'', JStr ''one'')],
             JObj [(''type'', JStr ''video''), (''content'', JStr ''skipped'')],
             JNum ''7'',
             JObj [(''type'', JStr ''text''), (''content'', JStr ''two'')]]"
  have ta: "\<forall>e \<in> set ?a. entry_typed e"
    and tb: "\<forall>e \<in> set ?b. entry_typed e"
    and tc: "\<forall>e \<in> set ?c. entry_typed e"
    by (simp_all add: entry_typed_def field_of_def string_or_absent_def)
  have ga: "get_field (JObj [(''messages'', JArr ?a)]) ''messages'' = Inr (JArr ?a)"
    and gb: "get_field (JObj [(''messages'', JArr ?b)]) ''messages'' = Inr (JArr ?b)"
    and gc: "get_field (JObj [(''messages'', JArr ?c)]) ''messages'' = Inr (JArr ?c)"
    by simp_all
  show ?thesis
    using current_shape_entries_in_order [OF ga ta, where rt = ?rt]
      current_shape_entries_in_order [OF gb tb, where rt = ?rt]
      current_shape_entries_in_order [OF gc tc, where rt = ?rt]
    by (simp add: spec_entry_blocks_def field_of_def present_nonempty_def)
qed

subsection \<open>C5: \<^verbatim>\<open>data\<close> equal to \<^verbatim>\<open>message\<close> is not repeated\<close>

text \<open>
  Claim C5: for a legacy payload (no \<^verbatim>\<open>messages\<close> field) with non-empty strings
  \<^verbatim>\<open>message\<close> and \<^verbatim>\<open>data\<close> and neither \<^verbatim>\<open>image\<close> nor \<^verbatim>\<open>errors\<close>, the content is
  the single text block of \<^verbatim>\<open>message\<close> when \<^verbatim>\<open>data\<close> equals \<^verbatim>\<open>message\<close>, and the two
  text blocks of \<^verbatim>\<open>message\<close> and then \<^verbatim>\<open>data\<close> when they differ.
\<close>

theorem message_data_deduplicated:
  assumes "map_of fs ''messages'' = None"
    and "map_of fs ''message'' = Some (JStr m)" and "m \<noteq> []"
    and "map_of fs ''data'' = Some (JStr d)" and "d \<noteq> []"
    and "map_of fs ''image'' = None"
    and "map_of fs ''errors'' = None"
  shows "convertToMCPResponse rt (JObj fs) =
     Inr (if d = m then [TextBlock (JStr m)] else [TextBlock (JStr m), TextBlock (JStr d)])"
  using assms
  by (simp add: convertToMCPResponse_def convertLegacyResponse_def is_array_def)

text \<open>The theorem at \<^verbatim>\<open>{message: "X", data: "X"}\<close> and at \<^verbatim>\<open>{message: "X", data: "Y"}\<close>.\<close>

theorem message_data_deduplicated_witness:
  "convertToMCPResponse (mock_runtime (Resolved JNull))
       (JObj [(''message'', JStr ''X''), (''data'', JStr ''X'')])
     = Inr [TextBlock (JStr ''X'')]
   \<and> convertToMCPResponse (mock_runtime (Resolved JNull))
       (JObj [(''message'', JStr ''X''), (''data'', JStr ''Y'')])
     = Inr [TextBlock (JStr ''X''), TextBlock (JStr ''Y'')]"
  using message_data_deduplicated [where fs = "[(''message'', JStr ''X''), (''data'', JStr ''X'')]"
      and m = "''X''" and d = "''X''" and rt = "mock_runtime (Resolved JNull)"]
    message_data_deduplicated [where fs = "[(''message'', JStr ''X''), (''data'', JStr ''Y'')]"
      and m = "''X''" and d = "''Y''" and rt = "mock_runtime (Resolved JNull)"]
  by simp

subsection \<open>C6: the errors of a legacy payload\<close>



subsection \<open>C7: a legacy image, and the camera tool end to end\<close>

text \<open>
  Claim C7: for a legacy payload with a non-empty \<^verbatim>\<open>image\<close> field the Normalizer
  emits, after the blocks of \<^verbatim>\<open>message\<close> and \<^verbatim>\<open>data\<close> and before that of
  \<^verbatim>\<open>errors\<close>, the caption text block \<^verbatim>\<open>Unity Screenshot\<close> immediately followed by one
  image block holding the \<^verbatim>\<open>image\<close> value, of media type \<^verbatim>\<open>image/png\<close>. Consequently
  the handler of \<^verbatim>\<open>camera_screenshot\<close>, called with position \<^verbatim>\<open>[0,1,2]\<close> and target
  \<^verbatim>\<open>[0,0,0]\<close> against an upstream that answers its request with
  \<^verbatim>\<open>{image: "<base64>"}\<close>, returns the caption block and the image block.
\<close>

theorem image_caption_then_png:
  "(p \<noteq> JNull \<longrightarrow> p \<noteq> JUndefined \<longrightarrow> \<not> is_array (field_of p ''messages'') \<longrightarrow>
      truthy (field_of p ''image'') \<longrightarrow> errorsBlocks rt (field_of p ''errors'') = Inr eb \<longrightarrow>
      convertToMCPResponse rt p =
        Inr (messageDataBlocks p
             @ [TextBlock (JStr ''Unity Screenshot''),
                ImageBlock (field_of p ''image'') ''image/png'']
             @ eb))
   \<and> (axios_post rt ''http://localhost:7777/api/camera_screenshot''
         (json_stringify rt
           (JObj [(''position'', JArr [JNum ''0'', JNum ''1'', JNum ''2'']),
                  (''target'', JArr [JNum ''0'', JNum ''0'', JNum ''0'']),
                  (''fov'', JNum ''60''), (''width'', JNum ''1920''), (''height'', JNum ''1080'')]))
         20000
        = Resolved (JObj [(''image'', JStr imageData)]) \<longrightarrow>
      imageData \<noteq> [] \<longrightarrow>
      camera_screenshot rt
        (JObj [(''position'', JArr [JNum ''0'', JNum ''1'', JNum ''2'']),
               (''target'', JArr [JNum ''0'', JNum ''0'', JNum ''0''])])
        = Inr [TextBlock (JStr ''Unity Screenshot''), ImageBlock (JStr imageData) ''image/png''])"
proof (intro conjI impI)
  assume "p \<noteq> JNull" "p \<noteq> JUndefined" "\<not> is_array (field_of p ''messages'')"
    "truthy (field_of p ''image'')" "errorsBlocks rt (field_of p ''errors'') = Inr eb"
  then show "convertToMCPResponse rt p =
        Inr (messageDataBlocks p
             @ [TextBlock (JStr ''Unity Screenshot''),
                ImageBlock (field_of p ''image'') ''image/png'']
             @ eb)"
    by (rule legacy_image_blocks)
next
  let ?reply = "JObj [(''image'', JStr imageData)]"
  assume post: "axios_post rt ''http://localhost:7777/api/camera_screenshot''
         (json_stringify rt
           (JObj [(''position'', JArr [JNum ''0'', JNum ''1'', JNum ''2'']),
                  (''target'', JArr [JNum ''0'', JNum ''0'', JNum ''0'']),
                  (''fov'', JNum ''60''), (''width'', JNum ''1920''), (''height'', JNum ''1080'')]))
         20000
        = Resolved ?reply"
    and nonempty: "imageData \<noteq> []"
  have "convertToMCPResponse rt ?reply
      = Inr (messageDataBlocks ?reply
          @ [TextBlock (JStr ''Unity Screenshot''), ImageBlock (field_of ?reply ''image'') ''image/png'']
          @ [])"
    using nonempty by (intro legacy_image_blocks) (simp_all add: field_of_def is_array_def)
  then have norm: "convertToMCPResponse rt ?reply
      = Inr [TextBlock (JStr ''Unity Screenshot''), ImageBlock (JStr imageData) ''image/png'']"
    by (simp add: messageDataBlocks_def field_of_def)
  show "camera_screenshot rt
        (JObj [(''position'', JArr [JNum ''0'', JNum ''1'', JNum ''2'']),
               (''target'', JArr [JNum ''0'', JNum ''0'', JNum ''0''])])
        = Inr [TextBlock (JStr ''Unity Screenshot''), ImageBlock (JStr imageData) ''image/png'']"
    unfolding camera_screenshot_request
    using post norm by (simp add: handleUnityRequest_def tryRequest_def UNITY_BASE_URL_def)
qed

text \<open>
  The theorem at a legacy payload with a message and an image, and at the camera tool
  against the mocked upstream.
\<close>

theorem image_caption_then_png_witness:
  "convertToMCPResponse (mock_runtime (Resolved JNull))
       (JObj [(''message'', JStr ''Captured''), (''image'', JStr ''iVBORw0KGgo='')])
     = Inr [TextBlock (JStr ''Captured''), TextBlock (JStr ''Unity Screenshot''),
            ImageBlock (JStr ''iVBORw0KGgo='') ''image/png'']
   \<and> camera_screenshot (mock_runtime (Resolved (JObj [(''image'', JStr ''iVBORw0KGgo='')])))
       (JObj [(''position'', JArr [JNum ''0'', JNum ''1'', JNum ''2'']),
              (''target'', JArr [JNum ''0'', JNum ''0'', JNum ''0''])])
     = Inr [TextBlock (JStr ''Unity Screenshot''), ImageBlock (JStr ''iVBORw0KGgo='') ''image/png'']"
proof -
  let ?p = "JObj [(''message'', JStr ''Captured''), (''image'', JStr ''iVBORw0KGgo='')]"
  let ?rt = "mock_runtime (Resolved (JObj [(''image'', JStr ''iVBORw0KGgo='')]))"
  have post: "axios_post ?rt u b t = Resolved (JObj [(''image'', JStr ''iVBORw0KGgo='')])" for u b t
    by (simp add: mock_runtime_def)
  have fields: "\<not> is_array (field_of ?p ''messages'')" "truthy (field_of ?p ''image'')"
    "errorsBlocks (mock_runtime (Resolved JNull)) (field_of ?p ''errors'') = Inr []"
    "field_of ?p ''image'' = JStr ''iVBORw0KGgo=''"
    "messageDataBlocks ?p = [TextBlock (JStr ''Captured'')]"
    by (simp_all add: field_of_def is_array_def messageDataBlocks_def)
  show ?thesis
    using image_caption_then_png [where p = ?p and rt = "mock_runtime (Resolved JNull)"
        and eb = "[]" and imageData = "''iVBORw0KGgo=''"]
      image_caption_then_png [where p = ?p and rt = ?rt and eb = "[]" and imageData = "''iVBORw0KGgo=''"]
    by (simp add: fields post)
qed

subsection \<open>C8: the status fallback\<close>



subsection \<open>C9: waiting for the user\<close>

text \<open>
  Claim C9 as stated: on every platform and in both modes the call of
  \<^verbatim>\<open>wait_for_user\<close> ends only when the human has answered or dismissed the prompt, with
  the entered answer, a fixed confirmation string or a user-cancelled error. It holds
  of the macOS branch only. On the other platforms the handler launches a terminal
  window and returns at once a fixed notice, which is not the entered answer; and a
  failed launch is reported as it is, not as a cancellation.
\<close>

theorem wait_for_user_fallback_counterexample:
  "wait_for_user (mock_host ''linux'' (Inr []) (Inr ()))
       \<lparr> request = ''Which scene should I open?'', details = None,
         expect_answer = Some True, answer_placeholder = None \<rparr>
     = Inr ''Waiting for user input in chat...''
   \<and> wait_for_user (mock_host ''win32'' (Inr []) (Inl ''spawn cmd ENOENT''))
       \<lparr> request = ''Press play in the editor'', details = None,
         expect_answer = None, answer_placeholder = None \<rparr>
     = Inl (Error ''Interaction Error: spawn cmd ENOENT'')"
  by (simp add: wait_for_user_def mock_host_def Let_def interaction_def)

text \<open>
  Claim C9, amended. On macOS (\<^verbatim>\<open>darwin\<close>) the call runs the \<^verbatim>\<open>osascript\<close> dialog and
  its result follows the outcome of that command. In free-text mode it returns
  \<^verbatim>\<open>User Answer: "<answer>"\<close>, the answer being the text after \<^verbatim>\<open>text returned:\<close> in
  the dialog's output, trimmed, and fails with
  \<^verbatim>\<open>Interaction Error: User cancelled input.\<close> when the command fails or its output
  holds no answer. In confirm mode it returns \<^verbatim>\<open>User confirmed execution.\<close> when the
  output names the confirm button, and fails with
  \<^verbatim>\<open>Interaction Error: User cancelled operation.\<close> otherwise. On every other platform
  the call launches the terminal window and its result follows the launch only: the
  fixed string \<^verbatim>\<open>Waiting for user input in chat...\<close> (free-text mode) or
  \<^verbatim>\<open>Waiting for user confirmation...\<close> (confirm mode) when the launch succeeds, and the
  failure \<^verbatim>\<open>Interaction Error: \<close> followed by the message of the launch when it fails.
\<close>

theorem wait_for_user_outcomes:
  "(platform h = ''darwin'' \<longrightarrow> expects_answer args \<longrightarrow>
      wait_for_user h args =
        (case execAsync h (dialog_command args) of
           Inl failure \<Rightarrow> Inl (Error ''Interaction Error: User cancelled input.'')
         | Inr stdout \<Rightarrow>
             (case match_text_returned stdout of
                Some answer \<Rightarrow> Inr (''User Answer: '' @ dq @ js_trim answer @ dq)
              | None \<Rightarrow> Inl (Error ''Interaction Error: User cancelled input.''))))
   \<and> (platform h = ''darwin'' \<longrightarrow> \<not> expects_answer args \<longrightarrow>
      wait_for_user h args =
        (case execAsync h (dialog_command args) of
           Inl failure \<Rightarrow> Inl (Error ''Interaction Error: User cancelled operation.'')
         | Inr stdout \<Rightarrow>
             (if includes_str stdout button_done then Inr ''User confirmed execution.''
              else Inl (Error ''Interaction Error: User cancelled operation.''))))
   \<and> (platform h \<noteq> ''darwin'' \<longrightarrow> expects_answer args \<longrightarrow>
      wait_for_user h args =
        (case spawnBackground h (terminal_command (platform h) args) of
           Inl failure \<Rightarrow> Inl (Error (''Interaction Error: '' @ failure))
         | Inr launched \<Rightarrow> Inr ''Waiting for user input in chat...''))
   \<and> (platform h \<noteq> ''darwin'' \<longrightarrow> \<not> expects_answer args \<longrightarrow>
      wait_for_user h args =
        (case spawnBackground h (terminal_command (platform h) args) of
           Inl failure \<Rightarrow> Inl (Error (''Interaction Error: '' @ failure))
         | Inr launched \<Rightarrow> Inr ''Waiting for user confirmation...''))"
proof (intro conjI impI)
  assume "platform h = ''darwin''" "expects_answer args"
  then show "wait_for_user h args =
        (case execAsync h (dialog_command args) of
           Inl failure \<Rightarrow> Inl (Error ''Interaction Error: User cancelled input.'')
         | Inr stdout \<Rightarrow>
             (case match_text_returned stdout of
                Some answer \<Rightarrow> Inr (''User Answer: '' @ dq @ js_trim answer @ dq)
              | None \<Rightarrow> Inl (Error ''Interaction Error: User cancelled input.'')))"
    by (cases "details args"; cases "answer_placeholder args"; cases "expect_answer args")
      (auto simp: wait_for_user_def Let_def interaction_def expects_answer_def
        dialog_command_def dialog_title_def full_request_def
        split: sum.splits option.splits)
next
  assume "platform h = ''darwin''" "\<not> expects_answer args"
  then show "wait_for_user h args =
        (case execAsync h (dialog_command args) of
           Inl failure \<Rightarrow> Inl (Error ''Interaction Error: User cancelled operation.'')
         | Inr stdout \<Rightarrow>
             (if includes_str stdout button_done then Inr ''User confirmed execution.''
              else Inl (Error ''Interaction Error: User cancelled operation.'')))"
    by (cases "details args"; cases "answer_placeholder args"; cases "expect_answer args")
      (auto simp: wait_for_user_def Let_def interaction_def expects_answer_def
        dialog_command_def dialog_title_def full_request_def
        split: sum.splits option.splits)
next
  assume "platform h \<noteq> ''darwin''" "expects_answer args"
  then show "wait_for_user h args =
        (case spawnBackground h (terminal_command (platform h) args) of
           Inl failure \<Rightarrow> Inl (Error (''Interaction Error: '' @ failure))
         | Inr launched \<Rightarrow> Inr ''Waiting for user input in chat...'')"
    by (cases "details args"; cases "answer_placeholder args"; cases "expect_answer args")
      (auto simp: wait_for_user_def Let_def interaction_def expects_answer_def
        terminal_command_def dialog_title_def full_request_def
        split: sum.splits option.splits)
next
  assume "platform h \<noteq> ''darwin''" "\<not> expects_answer args"
  then show "wait_for_user h args =
        (case spawnBackground h (terminal_command (platform h) args) of
           Inl failure \<Rightarrow> Inl (Error (''Interaction Error: '' @ failure))
         | Inr launched \<Rightarrow> Inr ''Waiting for user confirmation...'')"
    by (cases "details args"; cases "answer_placeholder args"; cases "expect_answer args")
      (auto simp: wait_for_user_def Let_def interaction_def expects_answer_def
        terminal_command_def dialog_title_def full_request_def
        split: sum.splits option.splits)
qed

text \<open>
  The theorem at a dialog answered with \<^verbatim>\<open>MainScene\<close>, at a dismissed confirmation
  dialog, at a confirmation on Linux, and at a question on Linux whose terminal cannot
  be launched.
\<close>

theorem wait_for_user_outcomes_witness:
  "wait_for_user (mock_host ''darwin'' (Inr ''button returned:OK, text returned: MainScene '') (Inr ()))
       \<lparr> request = ''Which scene should I open?'', details = None,
         expect_answer = Some True, answer_placeholder = None \<rparr>
     = Inr (''User Answer: '' @ dq @ ''MainScene'' @ dq)
   \<and> wait_for_user (mock_host ''darwin'' (Inl ''Command failed'') (Inr ()))
       \<lparr> request = ''Press play in the editor'', details = None,
         expect_answer = None, answer_placeholder = None \<rparr>
     = Inl (Error ''Interaction Error: User cancelled operation.'')
   \<and> wait_for_user (mock_host ''linux'' (Inr []) (Inr ()))
       \<lparr> request = ''Press play in the editor'', details = None,
         expect_answer = Some False, answer_placeholder = None \<rparr>
     = Inr ''Waiting for user confirmation...''
   \<and> wait_for_user (mock_host ''linux'' (Inr []) (Inl ''spawn x-terminal-emulator ENOENT''))
       \<lparr> request = ''Which scene should I open?'', details = None,
         expect_answer = Some True, answer_placeholder = None \<rparr>
     = Inl (Error ''Interaction Error: spawn x-terminal-emulator ENOENT'')"
proof -
  let ?answered = "mock_host ''darwin'' (Inr ''button returned:OK, text returned: MainScene '') (Inr ())"
  let ?dismissed = "mock_host ''darwin'' (Inl ''Command failed'') (Inr ())"
  let ?launched = "mock_host ''linux'' (Inr []) (Inr ())"
  let ?unlaunched = "mock_host ''linux'' (Inr []) (Inl ''spawn x-terminal-emulator ENOENT'')"
  let ?ask = "\<lparr> request = ''Which scene should I open?'', details = None,
         expect_answer = Some True, answer_placeholder = None \<rparr>"
  let ?confirm = "\<lparr> request = ''Press play in the editor'', details = None,
         expect_answer = None, answer_placeholder = None \<rparr>"
  let ?confirm' = "\<lparr> request = ''Press play in the editor'', details = None,
         expect_answer = Some False, answer_placeholder = None \<rparr>"
  have trim: "js_trim '' MainScene '' = ''MainScene''"
    by (simp add: js_trim_def trimmed_def white_space_def line_terminators_def)
  have found: "match_text_returned ''button returned:OK, text returned: MainScene ''
      = Some '' MainScene ''"
    by (simp add: line_terminators_def)
  have mode: "expects_answer ?ask" "\<not> expects_answer ?confirm" "\<not> expects_answer ?confirm'"
    by (simp_all add: expects_answer_def)
  have os: "platform ?answered = ''darwin''" "platform ?dismissed = ''darwin''"
    "platform ?launched \<noteq> ''darwin''" "platform ?unlaunched \<noteq> ''darwin''"
    by (simp_all add: mock_host_def)
  have calls: "execAsync ?answered c = Inr ''button returned:OK, text returned: MainScene ''"
    "execAsync ?dismissed c = Inl ''Command failed''"
    "spawnBackground ?launched c = Inr ()"
    "spawnBackground ?unlaunched c = Inl ''spawn x-terminal-emulator ENOENT''" for c
    by (simp_all add: mock_host_def)
  from wait_for_user_outcomes [where h = ?answered and args = ?ask] os(1) mode(1)
  have r1: "wait_for_user ?answered ?ask = Inr (''User Answer: '' @ dq @ ''MainScene'' @ dq)"
    by (simp add: calls found trim del: match_text_returned.simps)
  from wait_for_user_outcomes [where h = ?dismissed and args = ?confirm] os(2) mode(2)
  have r2: "wait_for_user ?dismissed ?confirm
      = Inl (Error ''Interaction Error: User cancelled operation.'')"
    by (simp add: calls)
  from wait_for_user_outcomes [where h = ?launched and args = ?confirm'] os(3) mode(3)
  have r3: "wait_for_user ?launched ?confirm' = Inr ''Waiting for user confirmation...''"
    by (simp add: calls)
  from wait_for_user_outcomes [where h = ?unlaunched and args = ?ask] os(4) mode(1)
  have r4: "wait_for_user ?unlaunched ?ask
      = Inl (Error ''Interaction Error: spawn x-terminal-emulator ENOENT'')"
    by (simp add: calls)
  from r1 r2 r3 r4 show ?thesis by (intro conjI)
qed

subsection \<open>C10: an empty string is an absent field\<close>

text \<open>
  Claim C10: the Normalizer treats a field holding the empty string as absent. A
  payload with \<^verbatim>\<open>message\<close>, \<^verbatim>\<open>data\<close>, \<^verbatim>\<open>image\<close> or \<^verbatim>\<open>status\<close> equal to
  \<^verbatim>\<open>""\<close> is normalized as the same payload without that field, so it gains no block
  for it and an empty status reads \<^verbatim>\<open>Unknown\<close>; and a current-shape entry with
  \<^verbatim>\<open>text\<close> equal to \<^verbatim>\<open>""\<close> gives the blocks of the same entry without \<^verbatim>\<open>text\<close>,
  so an image entry gets no caption.
\<close>

theorem empty_string_is_absent:
  "convertToMCPResponse rt (JObj ((''message'', JStr []) # fs))
     = convertToMCPResponse rt (JObj (without ''message'' fs))
   \<and> convertToMCPResponse rt (JObj ((''data'', JStr []) # fs))
     = convertToMCPResponse rt (JObj (without ''data'' fs))
   \<and> convertToMCPResponse rt (JObj ((''image'', JStr []) # fs))
     = convertToMCPResponse rt (JObj (without ''image'' fs))
   \<and> convertToMCPResponse rt (JObj ((''status'', JStr []) # fs))
     = convertToMCPResponse rt (JObj (without ''status'' fs))
   \<and> convertMessage (JObj ((''text'', JStr []) # fs))
     = convertMessage (JObj (without ''text'' fs))"
proof (intro conjI)
  show "convertToMCPResponse rt (JObj ((''message'', JStr []) # fs))
     = convertToMCPResponse rt (JObj (without ''message'' fs))"
    by (simp add: convertToMCPResponse_object convertLegacyResponse_blocks field_of_cons
        field_of_without messageDataBlocks_def imageBlocks_def truthy_not_empty_string
        strict_eq_undefined cong: if_cong)
  show "convertToMCPResponse rt (JObj ((''data'', JStr []) # fs))
     = convertToMCPResponse rt (JObj (without ''data'' fs))"
    by (simp add: convertToMCPResponse_object convertLegacyResponse_blocks field_of_cons
        field_of_without messageDataBlocks_def imageBlocks_def cong: if_cong)
  show "convertToMCPResponse rt (JObj ((''image'', JStr []) # fs))
     = convertToMCPResponse rt (JObj (without ''image'' fs))"
    by (simp add: convertToMCPResponse_object convertLegacyResponse_blocks field_of_cons
        field_of_without messageDataBlocks_def imageBlocks_def cong: if_cong)
  show "convertToMCPResponse rt (JObj ((''status'', JStr []) # fs))
     = convertToMCPResponse rt (JObj (without ''status'' fs))"
    by (simp add: convertToMCPResponse_object convertLegacyResponse_blocks field_of_cons
        field_of_without messageDataBlocks_def imageBlocks_def or_else_def cong: if_cong)
  have g: "get_field (JObj xs) k = Inr (field_of (JObj xs) k)" for xs k
    by (simp add: field_of_def)
  show "convertMessage (JObj ((''text'', JStr []) # fs))
     = convertMessage (JObj (without ''text'' fs))"
    unfolding convertMessage_def g
    by (simp add: field_of_cons field_of_without cong: if_cong)
qed

text \<open>
  The theorem at the payloads holding nothing but one empty field, each normalized to
  the status fallback alone, and at an image entry with an empty \<^verbatim>\<open>text\<close>.
\<close>

theorem empty_string_is_absent_witness:
  "convertToMCPResponse (mock_runtime (Resolved JNull)) (JObj [(''message'', JStr [])])
     = Inr [TextBlock (JStr ''Unity Status: Unknown'')]
   \<and> convertToMCPResponse (mock_runtime (Resolved JNull)) (JObj [(''data'', JStr [])])
     = Inr [TextBlock (JStr ''Unity Status: Unknown'')]
   \<and> convertToMCPResponse (mock_runtime (Resolved JNull)) (JObj [(''image'', JStr [])])
     = Inr [TextBlock (JStr ''Unity Status: Unknown'')]
   \<and> convertToMCPResponse (mock_runtime (Resolved JNull)) (JObj [(''status'', JStr [])])
     = Inr [TextBlock (JStr ''Unity Status: Unknown'')]
   \<and> convertMessage
       (JObj [(''text'', JStr []), (''type'', JStr ''image''), (''content'', JStr ''AAAA'')])
     = Inr [ImageBlock (JStr ''AAAA'') ''image/png'']"
proof -
  have none: "convertToMCPResponse (mock_runtime (Resolved JNull)) (JObj [])
      = Inr [TextBlock (JStr ''Unity Status: Unknown'')]"
    by (simp add: convertToMCPResponse_def convertLegacyResponse_def is_array_def or_else_def)
  have entry: "convertMessage (JObj [(''type'', JStr ''image''), (''content'', JStr ''AAAA'')])
      = Inr [ImageBlock (JStr ''AAAA'') ''image/png'']"
    by (simp add: convertMessage_def)
  show ?thesis
    using empty_string_is_absent [where rt = "mock_runtime (Resolved JNull)" and fs = "[]"]
      empty_string_is_absent [where rt = "mock_runtime (Resolved JNull)"
        and fs = "[(''type'', JStr ''image''), (''content'', JStr ''AAAA'')]"]
      none entry
    by (simp add: without_def)
qed

end
